theory Spec2Isabelle
  imports Complex_Main "HOL-Library.Log_Nat"
begin

section \<open>JavaScript values used by \<open>trace.ts\<close>\<close>

text \<open>
  A JavaScript \<open>number\<close> is an IEEE-754 binary64 value: a finite value, \<open>NaN\<close>, \<open>Infinity\<close>
  or \<open>-Infinity\<close>. A finite value is given as the real it denotes; the two zeros are not
  told apart. \<open>Fin x\<close> is a number of the program when \<open>x\<close> is a binary64 value; a decimal
  literal of the source such as \<open>0.57\<close> is the number \<open>round64 0.57\<close>.
\<close>

datatype number = Fin real | NaN | PosInf | NegInf

text \<open>\<open>pow2 k\<close> is \<open>2\<close> to the power \<open>k\<close>, for an integer \<open>k\<close>.\<close>

definition pow2 :: "int \<Rightarrow> real" where
  "pow2 k = (if 0 \<le> k then 2 ^ nat k else 1 / 2 ^ nat (- k))"

text \<open>The binary exponent of a positive real \<open>y\<close>: the \<open>e\<close> with \<open>2\<^sup>e \<le> y < 2\<^sup>e\<^sup>+\<^sup>1\<close>.\<close>

definition binade :: "real \<Rightarrow> int" where
  "binade y = (if 1 \<le> y then bitlen \<lfloor>y\<rfloor> - 1 else - bitlen (\<lceil>1 / y\<rceil> - 1))"

text \<open>Rounding to the nearest integer, a tie going to the even one.\<close>

definition round_half_even :: "real \<Rightarrow> int" where
  "round_half_even x =
     (let f = \<lfloor>x\<rfloor>; d = x - of_int f
      in if d < 1 / 2 then f else if 1 / 2 < d then f + 1 else if even f then f else f + 1)"

text \<open>
  The binary64 value of a real: rounding to nearest, ties to even. With \<open>e\<close> the exponent of
  \<open>x\<close>, at least \<open>-1022\<close> (below that the values are subnormal), the binary64 values around
  \<open>x\<close> are the multiples of \<open>2\<^sup>e\<^sup>-\<^sup>5\<^sup>2\<close>; \<open>x\<close> is rounded to the nearest multiple \<open>m\<close>, and the
  result overflows to an infinity when it reaches \<open>2\<^sup>1\<^sup>0\<^sup>2\<^sup>4\<close>. Every arithmetic operation of
  the language returns the binary64 value of its exact result.
\<close>

definition round64 :: "real \<Rightarrow> number" where
  "round64 x =
     (if x = 0 then Fin 0
      else
        let e = max (binade \<bar>x\<bar>) (- 1022);
            q = pow2 (e - 52);
            m = round_half_even (x / q)
        in if 1024 \<le> e \<or> (e = 1023 \<and> \<bar>m\<bar> = 2 ^ 53)
           then (if 0 < x then PosInf else NegInf)
           else Fin (of_int m * q))"

text \<open>\<open>a + b\<close> on numbers.\<close>

fun js_add :: "number \<Rightarrow> number \<Rightarrow> number" where
  "js_add (Fin a) (Fin b) = round64 (a + b)"
| "js_add NaN _ = NaN"
| "js_add _ NaN = NaN"
| "js_add PosInf NegInf = NaN"
| "js_add NegInf PosInf = NaN"
| "js_add PosInf _ = PosInf"
| "js_add _ PosInf = PosInf"
| "js_add NegInf _ = NegInf"
| "js_add _ NegInf = NegInf"

text \<open>\<open>a * b\<close> on numbers.\<close>

fun js_mul :: "number \<Rightarrow> number \<Rightarrow> number" where
  "js_mul (Fin a) (Fin b) = round64 (a * b)"
| "js_mul NaN _ = NaN"
| "js_mul _ NaN = NaN"
| "js_mul PosInf (Fin b) = (if b = 0 then NaN else if 0 < b then PosInf else NegInf)"
| "js_mul NegInf (Fin b) = (if b = 0 then NaN else if 0 < b then NegInf else PosInf)"
| "js_mul (Fin a) PosInf = (if a = 0 then NaN else if 0 < a then PosInf else NegInf)"
| "js_mul (Fin a) NegInf = (if a = 0 then NaN else if 0 < a then NegInf else PosInf)"
| "js_mul PosInf PosInf = PosInf"
| "js_mul NegInf NegInf = PosInf"
| "js_mul PosInf NegInf = NegInf"
| "js_mul NegInf PosInf = NegInf"

text \<open>\<open>Math.floor\<close> on a number: the greatest integer below a finite value, which is a
  binary64 value again, so nothing is rounded; \<open>NaN\<close> and the infinities are returned as they
  are.\<close>

fun js_floor :: "number \<Rightarrow> number" where
  "js_floor (Fin a) = Fin (of_int \<lfloor>a\<rfloor>)"
| "js_floor NaN = NaN"
| "js_floor PosInf = PosInf"
| "js_floor NegInf = NegInf"

text \<open>Truthiness of a number (\<open>if (x)\<close>, \<open>x || y\<close>, \<open>x && y\<close>): \<open>0\<close> and \<open>NaN\<close> are falsy.\<close>

fun truthy :: "number \<Rightarrow> bool" where
  "truthy (Fin a) = (a \<noteq> 0)"
| "truthy NaN = False"
| "truthy PosInf = True"
| "truthy NegInf = True"

text \<open>The global \<open>isNaN\<close>, on a number.\<close>

fun isNaN :: "number \<Rightarrow> bool" where
  "isNaN NaN = True"
| "isNaN _ = False"

text \<open>A whole number: a finite value with no fractional part.\<close>

fun is_whole :: "number \<Rightarrow> bool" where
  "is_whole (Fin a) = (of_int \<lfloor>a\<rfloor> = a)"
| "is_whole _ = False"

text \<open>
  The values a caller can put into \<open>options.metrics\<close>. The declared type is \<open>number\<close>, and
  \<open>record\<close> coerces each value with \<open>Number(...)\<close>, so \<open>undefined\<close>, \<open>null\<close>, booleans and
  strings are kept beside numbers; symbols, big integers and objects are not modelled.
  The conversion of a string to a number (the \<open>StringToNumber\<close> grammar of the language) is
  a parameter \<open>sn\<close> of the model.
\<close>

datatype jsval = JUndefined | JNull | JBool bool | JNum number | JStr string

fun Number :: "(string \<Rightarrow> number) \<Rightarrow> jsval \<Rightarrow> number" where
  "Number sn JUndefined = NaN"
| "Number sn JNull = Fin 0"
| "Number sn (JBool b) = (if b then Fin 1 else Fin 0)"
| "Number sn (JNum n) = n"
| "Number sn (JStr s) = sn s"

text \<open>\<open>Math.floor(v)\<close> on any value: the argument is converted to a number first.\<close>

definition Math_floor :: "(string \<Rightarrow> number) \<Rightarrow> jsval \<Rightarrow> number" where
  "Math_floor sn v = js_floor (Number sn v)"

text \<open>Decimal digits of a natural number, as a template literal prints \<open>randomId\<close>;
  \<open>digit_char\<close> is only applied to a digit below ten.\<close>

definition digit_char :: "nat \<Rightarrow> char" where
  "digit_char d = ''0123456789'' ! d"

function string_of_nat :: "nat \<Rightarrow> string" where
  "string_of_nat n =
     (if n < 10 then [digit_char n] else string_of_nat (n div 10) @ [digit_char (n mod 10)])"
  by pat_completeness auto
termination
  by (relation "measure id") auto

declare string_of_nat.simps [simp del]

section \<open>The trace and its collaborators\<close>

datatype TraceState = UNINITIALIZED | RUNNING | TERMINATED

text \<open>The numeric value of the \<open>const enum\<close>: \<open>UNINITIALIZED = 1\<close>, then \<open>2\<close> and \<open>3\<close>.\<close>

fun state_value :: "TraceState \<Rightarrow> nat" where
  "state_value UNINITIALIZED = 1"
| "state_value RUNNING = 2"
| "state_value TERMINATED = 3"

datatype ErrorCode = TRACE_STARTED_BEFORE | TRACE_STOPPED_BEFORE

text \<open>\<open>ERROR_FACTORY.create(code, {traceName})\<close>: the error carries its code and the
  trace name.\<close>

datatype error = FirebaseError ErrorCode string

text \<open>
  The object held by \<open>customAttributes\<close> is shared by reference, so attribute objects live
  in a store: a reference is an address, \<open>objects\<close> gives the properties of the object at
  an address, and \<open>fresh\<close> is the next address to allocate. The \<open>counters\<close> object is kept
  inside the trace as a value. A property lookup on an absent key is \<open>undefined\<close>, modelled
  as \<open>None\<close>. Fields declared with \<open>!\<close> start unset (\<open>undefined\<close>), again \<open>None\<close>.
\<close>

type_synonym ref = nat

text \<open>
  The names of the properties every object inherits from \<open>Object.prototype\<close>. For such a
  key, a lookup on an object that has no property of its own under it does not give
  \<open>undefined\<close> but the inherited member (a function), and an assignment to \<open>__proto__\<close> does
  not create a property. The maps of counters and attributes model the properties an
  object has of its own, so what the model says of a lookup is what the code does for the
  keys outside this list. The statements below about \<open>putMetric\<close>, \<open>incrementMetric\<close> and
  the counters of the page-load factory ask that the counter name is outside it (for the
  assignment in \<open>putMetric\<close>, that it is not \<open>__proto__\<close>).
\<close>

definition Object_prototype_keys :: "string list" where
  "Object_prototype_keys =
     [''constructor'', ''__defineGetter__'', ''__defineSetter__'', ''hasOwnProperty'',
      ''__lookupGetter__'', ''__lookupSetter__'', ''isPrototypeOf'', ''propertyIsEnumerable'',
      ''toString'', ''valueOf'', ''__proto__'', ''toLocaleString'']"

record Trace =
  name :: string
  isAuto :: bool
  state :: TraceState
  startTimeUs :: "number option"
  durationUs :: "number option"
  customAttributes :: ref
  counters :: "string \<rightharpoonup> number"
  randomId :: nat
  traceStartMark :: "string option"
  traceStopMark :: "string option"
  traceMeasure :: "string option"

record PerformanceEntry =
  entry_name :: string
  startTime :: number
  duration :: number

record PerformanceNavigationTiming = PerformanceEntry +
  domInteractive :: number
  domContentLoadedEventEnd :: number
  loadEventEnd :: number

text \<open>
  Modelled from the spec: the \<open>Api\<close> service (\<open>services/api_service.ts\<close>) is not among the
  sources. Its five operations are parameters of the model, acting on a state \<open>'w\<close> of the
  host: \<open>mark\<close> and \<open>measure\<close> change it and return nothing, the other three read it.
  \<open>getEntriesByName\<close> may return no array at all (the code guards against it), and
  \<open>getUrl\<close> may return no route.
\<close>

record 'w Api =
  api_mark :: "string option \<Rightarrow> 'w \<Rightarrow> 'w"
  api_measure :: "string option \<Rightarrow> string option \<Rightarrow> string option \<Rightarrow> 'w \<Rightarrow> 'w"
  api_getEntriesByName :: "string option \<Rightarrow> 'w \<Rightarrow> PerformanceEntry list option"
  api_getTimeOrigin :: "'w \<Rightarrow> number"
  api_getUrl :: "'w \<Rightarrow> string option"

text \<open>The constants of \<open>../constants\<close>, which is not among the sources: parameters.\<close>

record constants =
  TRACE_START_MARK_PREFIX :: string
  TRACE_STOP_MARK_PREFIX :: string
  TRACE_MEASURE_PREFIX :: string
  OOB_TRACE_PAGE_LOAD_PREFIX :: string
  FIRST_PAINT_COUNTER_NAME :: string
  FIRST_CONTENTFUL_PAINT_COUNTER_NAME :: string
  FIRST_INPUT_DELAY_COUNTER_NAME :: string

text \<open>The state around a trace: the store of attribute objects, the host behind the
  \<open>Api\<close>, and the traces handed to the reporter so far, oldest first.\<close>

record 'w sys =
  objects :: "ref \<Rightarrow> (string \<rightharpoonup> string)"
  fresh :: ref
  world :: 'w
  reported :: "Trace list"

text \<open>A new object with the given properties (\<open>{}\<close>, \<open>{ ...x }\<close>).\<close>

definition alloc :: "(string \<rightharpoonup> string) \<Rightarrow> 'w sys \<Rightarrow> ref \<times> 'w sys" where
  "alloc m s = (fresh s, s\<lparr>objects := (objects s)(fresh s := m), fresh := Suc (fresh s)\<rparr>)"

text \<open>
  Modelled from the spec: \<open>logTrace\<close> (\<open>services/perf_logger.ts\<close>) is not among the
  sources. The reporter accepts a trace; the model appends the trace, with the field
  values it has at the call, to \<open>reported\<close>.
\<close>

definition logTrace :: "Trace \<Rightarrow> 'w sys \<Rightarrow> 'w sys" where
  "logTrace t s = s\<lparr>reported := reported s @ [t]\<rparr>"

section \<open>The methods of \<open>Trace\<close>\<close>

definition calculateTraceMetrics :: "'w Api \<Rightarrow> Trace \<Rightarrow> 'w \<Rightarrow> Trace" where
  "calculateTraceMetrics api t w =
     (case api_getEntriesByName api (traceMeasure t) w of
        None \<Rightarrow> t
      | Some [] \<Rightarrow> t
      | Some (perfMeasureEntry # _) \<Rightarrow>
          t\<lparr>durationUs := Some (js_floor (js_mul (duration perfMeasureEntry) (Fin 1000))),
            startTimeUs := Some (js_floor (js_mul
              (js_add (startTime perfMeasureEntry) (api_getTimeOrigin api w)) (Fin 1000)))\<rparr>)"

text \<open>
  The constructor. \<open>rid\<close> is the value drawn for \<open>randomId\<close>
  (\<open>Math.floor(Math.random() * 1000000)\<close>). An empty \<open>traceMeasureName\<close> is falsy, like an
  absent one.
\<close>

definition Trace_new ::
  "constants \<Rightarrow> 'w Api \<Rightarrow> string \<Rightarrow> bool \<Rightarrow> string option \<Rightarrow> nat \<Rightarrow> 'w sys \<Rightarrow> Trace \<times> 'w sys" where
  "Trace_new k api nm auto traceMeasureName rid s =
     (let (r, s1) = alloc Map.empty s;
          t = \<lparr>name = nm, isAuto = auto, state = UNINITIALIZED, startTimeUs = None,
               durationUs = None, customAttributes = r, counters = Map.empty,
               randomId = rid, traceStartMark = None, traceStopMark = None,
               traceMeasure = None\<rparr>
      in if \<not> auto then
           let given = (case traceMeasureName of None \<Rightarrow> False | Some m \<Rightarrow> m \<noteq> []);
               t1 = t\<lparr>traceStartMark :=
                       Some (TRACE_START_MARK_PREFIX k @ ''-'' @ string_of_nat rid @ ''-'' @ nm),
                     traceStopMark :=
                       Some (TRACE_STOP_MARK_PREFIX k @ ''-'' @ string_of_nat rid @ ''-'' @ nm),
                     traceMeasure :=
                       (if given then traceMeasureName
                        else Some (TRACE_MEASURE_PREFIX k @ ''-'' @ string_of_nat rid @ ''-'' @ nm))\<rparr>
           in if given then (calculateTraceMetrics api t1 (world s1), s1) else (t1, s1)
         else (t, s1))"

definition start :: "'w Api \<Rightarrow> Trace \<Rightarrow> 'w sys \<Rightarrow> error option \<times> Trace \<times> 'w sys" where
  "start api t s =
     (if state t \<noteq> UNINITIALIZED then (Some (FirebaseError TRACE_STARTED_BEFORE (name t)), t, s)
      else (None, t\<lparr>state := RUNNING\<rparr>,
            s\<lparr>world := api_mark api (traceStartMark t) (world s)\<rparr>))"

definition stop :: "'w Api \<Rightarrow> Trace \<Rightarrow> 'w sys \<Rightarrow> error option \<times> Trace \<times> 'w sys" where
  "stop api t s =
     (if state t \<noteq> RUNNING then (Some (FirebaseError TRACE_STOPPED_BEFORE (name t)), t, s)
      else
        let t1 = t\<lparr>state := TERMINATED\<rparr>;
            w1 = api_mark api (traceStopMark t1) (world s);
            w2 = api_measure api (traceMeasure t1) (traceStartMark t1) (traceStopMark t1) w1;
            t2 = calculateTraceMetrics api t1 w2
        in (None, t2, logTrace t2 (s\<lparr>world := w2\<rparr>)))"

text \<open>
  The argument \<open>options\<close> of \<open>record\<close>: an object literal is the list of its properties,
  read by key with \<open>map_of\<close>; an absent (or otherwise falsy) property is \<open>None\<close>.
\<close>

record options =
  metrics :: "(string \<times> jsval) list option"
  attributes :: "(string \<times> string) list option"

text \<open>The loop of \<open>record\<close> over \<open>Object.keys(options.metrics)\<close>.\<close>

fun record_metrics ::
  "(string \<Rightarrow> number) \<Rightarrow> (string \<times> jsval) list \<Rightarrow> string list \<Rightarrow> (string \<rightharpoonup> number)
     \<Rightarrow> (string \<rightharpoonup> number)" where
  "record_metrics sn ms [] cs = cs"
| "record_metrics sn ms (metric # rest) cs =
     (let v = (case map_of ms metric of None \<Rightarrow> JUndefined | Some x \<Rightarrow> x)
      in record_metrics sn ms rest
           (if \<not> isNaN (Number sn v) then cs(metric \<mapsto> Number sn (JNum (Math_floor sn v)))
            else cs))"

definition record_trace ::
  "(string \<Rightarrow> number) \<Rightarrow> number \<Rightarrow> number \<Rightarrow> options option \<Rightarrow> Trace \<Rightarrow> 'w sys
     \<Rightarrow> Trace \<times> 'w sys" where
  "record_trace sn startTime' duration' opts t s =
     (let t1 = t\<lparr>durationUs := Some (js_floor (js_mul duration' (Fin 1000)))\<rparr>;
          t2 = t1\<lparr>startTimeUs := Some (js_floor (js_mul startTime' (Fin 1000)))\<rparr>;
          (t3, s1) =
            (case opts of
               None \<Rightarrow> (t2, s)
             | Some ob \<Rightarrow>
                 (case attributes ob of
                    None \<Rightarrow> (t2, s)
                  | Some a \<Rightarrow> (let (r, s') = alloc (map_of a) s
                              in (t2\<lparr>customAttributes := r\<rparr>, s'))));
          t4 =
            (case opts of
               None \<Rightarrow> t3
             | Some ob \<Rightarrow>
                 (case metrics ob of
                    None \<Rightarrow> t3
                  | Some ms \<Rightarrow> t3\<lparr>counters := record_metrics sn ms (map fst ms) (counters t3)\<rparr>))
      in (t4, logTrace t4 s1))"

text \<open>\<open>incrementMetric(counter, num = 1)\<close>: an absent \<open>num\<close> is \<open>1\<close>. The first statement
  sets an absent counter to \<open>0\<close>; the second, \<open>+=\<close>, reads the counter again (\<open>undefined + num\<close>
  would be \<open>NaN\<close>) and writes the sum.\<close>

definition incrementMetric :: "string \<Rightarrow> number option \<Rightarrow> Trace \<Rightarrow> Trace" where
  "incrementMetric counter num t =
     (let n = (case num of None \<Rightarrow> Fin 1 | Some x \<Rightarrow> x);
          cs = (if counters t counter = None then (counters t)(counter \<mapsto> Fin 0)
                else counters t)
      in t\<lparr>counters :=
             cs(counter \<mapsto> (case cs counter of None \<Rightarrow> NaN | Some old \<Rightarrow> js_add old n))\<rparr>)"

definition putMetric :: "string \<Rightarrow> number \<Rightarrow> Trace \<Rightarrow> Trace" where
  "putMetric counter num t = t\<lparr>counters := (counters t)(counter \<mapsto> num)\<rparr>"

text \<open>\<open>this.counters[counter] || 0\<close>.\<close>

definition getMetric :: "string \<Rightarrow> Trace \<Rightarrow> number" where
  "getMetric counter t =
     (case counters t counter of
        None \<Rightarrow> Fin 0
      | Some v \<Rightarrow> if truthy v then v else Fin 0)"

definition putAttribute :: "string \<Rightarrow> string \<Rightarrow> Trace \<Rightarrow> 'w sys \<Rightarrow> 'w sys" where
  "putAttribute attr v t s =
     s\<lparr>objects := (objects s)(customAttributes t := (objects s (customAttributes t))(attr \<mapsto> v))\<rparr>"

definition getAttribute :: "string \<Rightarrow> Trace \<Rightarrow> 'w sys \<Rightarrow> string option" where
  "getAttribute attr t s = objects s (customAttributes t) attr"

definition removeAttribute :: "string \<Rightarrow> Trace \<Rightarrow> 'w sys \<Rightarrow> 'w sys" where
  "removeAttribute attr t s =
     (if objects s (customAttributes t) attr = None then s
      else s\<lparr>objects :=
               (objects s)(customAttributes t := (objects s (customAttributes t))(attr := None))\<rparr>)"

text \<open>\<open>{ ...this.customAttributes }\<close>: a new object with the same properties; its
  reference is returned.\<close>

definition getAttributes :: "Trace \<Rightarrow> 'w sys \<Rightarrow> ref \<times> 'w sys" where
  "getAttributes t s = alloc (objects s (customAttributes t)) s"

definition setStartTime :: "number \<Rightarrow> Trace \<Rightarrow> Trace" where
  "setStartTime st t = t\<lparr>startTimeUs := Some st\<rparr>"

definition setDuration :: "number \<Rightarrow> Trace \<Rightarrow> Trace" where
  "setDuration d t = t\<lparr>durationUs := Some d\<rparr>"

text \<open>
  The page-load factory. \<open>rid\<close> is the value the constructor draws for \<open>randomId\<close>. The
  two arrays and the input delay may be absent; an empty route is falsy, like an absent
  one. The trace built is handed to the reporter and not returned.
\<close>

definition createOobTrace ::
  "constants \<Rightarrow> 'w Api \<Rightarrow> PerformanceNavigationTiming list option \<Rightarrow> PerformanceEntry list option
     \<Rightarrow> number option \<Rightarrow> nat \<Rightarrow> 'w sys \<Rightarrow> 'w sys" where
  "createOobTrace k api navigationTimings paintTimings firstInputDelay rid s =
     (case api_getUrl api (world s) of
        None \<Rightarrow> s
      | Some route \<Rightarrow>
          if route = [] then s
          else
            let (trace, s1) = Trace_new k api (OOB_TRACE_PAGE_LOAD_PREFIX k @ route) True None rid s;
                timeOriginUs = js_floor (js_mul (api_getTimeOrigin api (world s1)) (Fin 1000));
                trace1 = setStartTime timeOriginUs trace;
                trace2 =
                  (case navigationTimings of
                     None \<Rightarrow> trace1
                   | Some [] \<Rightarrow> trace1
                   | Some (nav # _) \<Rightarrow>
                       incrementMetric ''loadEventEnd''
                         (Some (js_floor (js_mul (loadEventEnd nav) (Fin 1000))))
                         (incrementMetric ''domContentLoadedEventEnd''
                            (Some (js_floor (js_mul (domContentLoadedEventEnd nav) (Fin 1000))))
                            (incrementMetric ''domInteractive''
                               (Some (js_floor (js_mul (domInteractive nav) (Fin 1000))))
                               (setDuration (js_floor (js_mul (duration nav) (Fin 1000))) trace1))));
                trace3 =
                  (case paintTimings of
                     None \<Rightarrow> trace2
                   | Some pts \<Rightarrow>
                       let ta =
                             (case find (\<lambda>paintObject. entry_name paintObject = ''first-paint'') pts of
                                None \<Rightarrow> trace2
                              | Some firstPaint \<Rightarrow>
                                  if truthy (startTime firstPaint)
                                  then incrementMetric (FIRST_PAINT_COUNTER_NAME k)
                                         (Some (js_floor (js_mul (startTime firstPaint) (Fin 1000))))
                                         trace2
                                  else trace2);
                           tb =
                             (case find (\<lambda>paintObject.
                                     entry_name paintObject = ''first-contentful-paint'') pts of
                                None \<Rightarrow> ta
                              | Some firstContentfulPaint \<Rightarrow>
                                  if truthy (startTime firstContentfulPaint)
                                  then incrementMetric (FIRST_CONTENTFUL_PAINT_COUNTER_NAME k)
                                         (Some (js_floor
                                            (js_mul (startTime firstContentfulPaint) (Fin 1000))))
                                         ta
                                  else ta)
                       in (case firstInputDelay of
                             None \<Rightarrow> tb
                           | Some fid \<Rightarrow>
                               if truthy fid
                               then incrementMetric (FIRST_INPUT_DELAY_COUNTER_NAME k)
                                      (Some (js_floor (js_mul fid (Fin 1000)))) tb
                               else tb))
            in logTrace trace3 s1)"

definition createUserTimingTrace ::
  "constants \<Rightarrow> 'w Api \<Rightarrow> string \<Rightarrow> nat \<Rightarrow> 'w sys \<Rightarrow> 'w sys" where
  "createUserTimingTrace k api measureName rid s =
     (let (trace, s1) = Trace_new k api measureName False (Some measureName) rid s
      in logTrace trace s1)"

section \<open>Sequences of calls on one trace\<close>

text \<open>
  A call of a public method of a trace. \<open>exec\<close> runs one call on the trace and the state
  around it and gives the error thrown, if any, with the trace and the state after the
  call; the value a getter returns is not part of the state and is dropped. \<open>run\<close> makes
  the calls of a list in order, a caller that catches every error and goes on.
\<close>

datatype call =
    Start
  | Stop
  | Record number number "options option"
  | IncrementMetric string "number option"
  | PutMetric string number
  | GetMetric string
  | PutAttribute string string
  | GetAttribute string
  | RemoveAttribute string
  | GetAttributes

fun exec ::
  "(string \<Rightarrow> number) \<Rightarrow> 'w Api \<Rightarrow> call \<Rightarrow> Trace \<times> 'w sys \<Rightarrow> error option \<times> Trace \<times> 'w sys" where
  "exec sn api Start (t, s) = start api t s"
| "exec sn api Stop (t, s) = stop api t s"
| "exec sn api (Record st d opts) (t, s) = (None, record_trace sn st d opts t s)"
| "exec sn api (IncrementMetric c num) (t, s) = (None, incrementMetric c num t, s)"
| "exec sn api (PutMetric c num) (t, s) = (None, putMetric c num t, s)"
| "exec sn api (GetMetric c) (t, s) = (None, t, s)"
| "exec sn api (PutAttribute a v) (t, s) = (None, t, putAttribute a v t s)"
| "exec sn api (GetAttribute a) (t, s) = (None, t, s)"
| "exec sn api (RemoveAttribute a) (t, s) = (None, t, removeAttribute a t s)"
| "exec sn api GetAttributes (t, s) = (None, t, snd (getAttributes t s))"

fun run :: "(string \<Rightarrow> number) \<Rightarrow> 'w Api \<Rightarrow> call list \<Rightarrow> Trace \<times> 'w sys \<Rightarrow> Trace \<times> 'w sys" where
  "run sn api [] ts = ts"
| "run sn api (c # cs) ts = run sn api cs (snd (exec sn api c ts))"

text \<open>A caller writing to an object it holds a reference to: the object at \<open>r\<close> gets the
  properties \<open>m\<close> (any number of assignments and deletions).\<close>

definition overwrite :: "ref \<Rightarrow> (string \<rightharpoonup> string) \<Rightarrow> 'w sys \<Rightarrow> 'w sys" where
  "overwrite r m s = s\<lparr>objects := (objects s)(r := m)\<rparr>"

section \<open>A concrete host\<close>

text \<open>
  A small host on which the model runs on concrete inputs: its state is the list of
  timing entries recorded so far, the clock reads the number of entries, a measure spans
  from its start mark to its end mark, the time origin is \<open>1500.25\<close> ms and the route is
  \<open>/home\<close>.
\<close>

definition mark_time :: "string option \<Rightarrow> PerformanceEntry list \<Rightarrow> real" where
  "mark_time n w =
     (case find (\<lambda>e. Some (entry_name e) = n) w of
        None \<Rightarrow> 0
      | Some e \<Rightarrow> (case startTime e of Fin x \<Rightarrow> x | _ \<Rightarrow> 0))"

definition entry_of :: "string option \<Rightarrow> real \<Rightarrow> real \<Rightarrow> PerformanceEntry" where
  "entry_of n st d =
     \<lparr>entry_name = (case n of None \<Rightarrow> ''undefined'' | Some x \<Rightarrow> x),
      startTime = Fin st, duration = Fin d\<rparr>"

definition host_api :: "(PerformanceEntry list) Api" where
  "host_api =
     \<lparr>api_mark = (\<lambda>n w. w @ [entry_of n (real (length w) + 0.5) 0]),
      api_measure = (\<lambda>n a b w. w @ [entry_of n (mark_time a w) (mark_time b w - mark_time a w)]),
      api_getEntriesByName = (\<lambda>n w. Some (filter (\<lambda>e. Some (entry_name e) = n) w)),
      api_getTimeOrigin = (\<lambda>w. Fin 1500.25),
      api_getUrl = (\<lambda>w. Some ''/home'')\<rparr>"

definition host_constants :: constants where
  "host_constants =
     \<lparr>TRACE_START_MARK_PREFIX = ''START'', TRACE_STOP_MARK_PREFIX = ''STOP'',
      TRACE_MEASURE_PREFIX = ''MEASURE'', OOB_TRACE_PAGE_LOAD_PREFIX = ''_wt_'',
      FIRST_PAINT_COUNTER_NAME = ''_fp'', FIRST_CONTENTFUL_PAINT_COUNTER_NAME = ''_fcp'',
      FIRST_INPUT_DELAY_COUNTER_NAME = ''_fid''\<rparr>"

definition host_sys :: "(PerformanceEntry list) sys" where
  "host_sys = \<lparr>objects = (\<lambda>r. Map.empty), fresh = 0, world = [], reported = []\<rparr>"

text \<open>The string conversion used on the concrete host: \<open>''7''\<close> reads as \<open>7\<close>, and every
  other string used below is not a numeral.\<close>

definition host_sn :: "string \<Rightarrow> number" where
  "host_sn s = (if s = ''7'' then Fin 7 else NaN)"

text \<open>\<open>new Trace(''t'')\<close> on the concrete host, with \<open>randomId = 42\<close>.\<close>

definition new_t :: "Trace \<times> (PerformanceEntry list) sys" where
  "new_t = Trace_new host_constants host_api ''t'' False None 42 host_sys"

text \<open>The trace of \<open>new_t\<close> after \<open>start()\<close>, and after \<open>start()\<close> and \<open>stop()\<close>.\<close>

definition started_t :: "Trace \<times> (PerformanceEntry list) sys" where
  "started_t = snd (exec host_sn host_api Start new_t)"

definition stopped_t :: "Trace \<times> (PerformanceEntry list) sys" where
  "stopped_t = snd (exec host_sn host_api Stop started_t)"

text \<open>Follows the spec's words, not the source: truncation of a number toward zero, the
  value the spec says a counter holds.\<close>

definition trunc_toward_zero :: "number \<Rightarrow> number" where
  "trunc_toward_zero v =
     (case v of Fin a \<Rightarrow> Fin (of_int (if 0 \<le> a then \<lfloor>a\<rfloor> else \<lceil>a\<rceil>)) | _ \<Rightarrow> v)"

section \<open>Facts about binary64 rounding\<close>

lemma pow2_pos: "0 < pow2 k"
  by (simp add: pow2_def)

lemma pow2_eq_powr: "pow2 k = 2 powr (of_int k)"
  by (simp add: pow2_def powr_realpow [symmetric] powr_minus divide_inverse)

lemma pow2_add: "pow2 (a + b) = pow2 a * pow2 b"
  by (simp add: pow2_eq_powr powr_add)

lemma round_half_even_of_int [simp]: "round_half_even (of_int z) = z"
  by (simp add: round_half_even_def)

lemma binade_bounds:
  assumes "0 < y"
  shows "pow2 (binade y) \<le> y \<and> y < pow2 (binade y + 1)"
proof (cases "1 \<le> y")
  case True
  define n where "n = \<lfloor>y\<rfloor>"
  have n: "0 < n" using True by (simp add: n_def)
  have b: "2 ^ nat (bitlen n - 1) \<le> n" "n < 2 ^ nat (bitlen n)"
    using bitlen_bounds [OF n] by simp_all
  have b1: "1 \<le> bitlen n" using n by (simp add: bitlen_alt_def)
  have "2 ^ nat (bitlen n - 1) \<le> real_of_int n" using b(1) by simp
  moreover have "real_of_int n \<le> y" unfolding n_def by linarith
  ultimately have lo: "2 ^ nat (bitlen n - 1) \<le> y" by linarith
  have "n + 1 \<le> 2 ^ nat (bitlen n)" using b(2) by simp
  then have "real_of_int (n + 1) \<le> 2 ^ nat (bitlen n)" by (simp flip: of_int_add)
  moreover have "y < real_of_int (n + 1)" unfolding n_def by linarith
  ultimately have hi: "y < 2 ^ nat (bitlen n)" by linarith
  show ?thesis using True lo hi b1
    by (simp add: binade_def pow2_def n_def [symmetric])
next
  case False
  define c where "c = \<lceil>1 / y\<rceil>"
  define k where "k = bitlen (c - 1)"
  from False assms have y1: "1 < 1 / y" by simp
  then have c2: "2 \<le> c" unfolding c_def by linarith
  then have cpos: "0 < c - 1" by simp
  have b: "2 ^ nat (k - 1) \<le> c - 1" "c - 1 < 2 ^ nat k"
    using bitlen_bounds [OF cpos] by (simp_all add: k_def)
  have k1: "1 \<le> k" using cpos by (simp add: k_def bitlen_alt_def)
  have "c \<le> 2 ^ nat k" using b(2) by simp
  then have "real_of_int c \<le> 2 ^ nat k" by simp
  moreover have "1 / y \<le> real_of_int c" unfolding c_def by linarith
  ultimately have "1 / y \<le> 2 ^ nat k" by linarith
  then have lo: "1 / 2 ^ nat k \<le> y" using assms
    by (simp add: field_simps)
  have "2 ^ nat (k - 1) \<le> real_of_int (c - 1)" using b(1) by (simp flip: of_int_diff)
  moreover have "real_of_int (c - 1) < 1 / y" unfolding c_def by linarith
  ultimately have "2 ^ nat (k - 1) < 1 / y" by linarith
  then have hi': "y < 1 / 2 ^ nat (k - 1)" using assms
    by (simp add: field_simps)
  have hi: "y < pow2 (- k + 1)"
  proof (cases "k = 1")
    case True
    then show ?thesis using hi' by (simp add: pow2_def)
  next
    case False
    then have "nat (k - 1) = nat (- (- k + 1))" "\<not> 0 \<le> - k + 1" using k1 by simp_all
    then show ?thesis using hi' by (simp add: pow2_def)
  qed
  show ?thesis using False lo hi k1
    by (simp add: binade_def pow2_def c_def [symmetric] k_def [symmetric])
qed

lemma round64_of_int:
  assumes "\<bar>n\<bar> < 2 ^ 53"
  shows "round64 (of_int n) = Fin (of_int n)"
proof (cases "n = 0")
  case True
  then show ?thesis by (simp add: round64_def)
next
  case False
  define e where "e = binade \<bar>real_of_int n\<bar>"
  have one: "1 \<le> \<bar>real_of_int n\<bar>" using False by (simp flip: of_int_abs)
  have fl: "\<lfloor>\<bar>real_of_int n\<bar>\<rfloor> = \<bar>n\<bar>" by (simp flip: of_int_abs)
  have e: "e = bitlen \<bar>n\<bar> - 1" using one by (simp add: e_def binade_def fl)
  have "bitlen \<bar>n\<bar> \<le> 53" using assms by (simp add: bitlen_le_iff_power)
  moreover have "1 \<le> bitlen \<bar>n\<bar>" using False by (simp add: bitlen_alt_def)
  ultimately have er: "0 \<le> e" "e \<le> 52" by (simp_all add: e)
  define k where "k = nat (52 - e)"
  have q: "pow2 (e - 52) = 1 / 2 ^ k"
    using er by (cases "e = 52") (simp_all add: pow2_def k_def)
  have m: "round_half_even (real_of_int n * 2 ^ k) = n * 2 ^ k"
    using round_half_even_of_int [of "n * 2 ^ k"] by simp
  have mx: "max e (- 1022) = e" using er by simp
  show ?thesis
    using False er
    by (simp add: round64_def e_def [symmetric] mx Let_def m q)
qed

lemma round64_numeral [simp]:
  "numeral w < (2 :: int) ^ 53 \<Longrightarrow> round64 (numeral w) = Fin (numeral w)"
  using round64_of_int [of "numeral w"] by simp

lemma round64_whole:
  "is_whole (round64 (of_int n)) \<or> round64 (of_int n) = PosInf \<or> round64 (of_int n) = NegInf"
proof (cases "n = 0")
  case True
  then show ?thesis by (simp add: round64_def)
next
  case False
  define j where "j = max (binade \<bar>real_of_int n\<bar>) (- 1022) - 52"
  define m where "m = round_half_even (real_of_int n / pow2 j)"
  show ?thesis
  proof (cases "0 \<le> j")
    case True
    then have "pow2 j = of_int (2 ^ nat j)" by (simp add: pow2_def)
    then have "of_int m * pow2 j = real_of_int (m * 2 ^ nat j)" by simp
    then have "is_whole (Fin (of_int m * pow2 j))" by (simp only: is_whole.simps floor_of_int)
    then show ?thesis
      using False by (simp add: round64_def Let_def j_def [symmetric] m_def [symmetric])
  next
    case neg: False
    then have q: "pow2 j = 1 / 2 ^ nat (- j)" by (simp add: pow2_def)
    have "real_of_int n / pow2 j = of_int (n * 2 ^ nat (- j))" by (simp add: q)
    then have "m = n * 2 ^ nat (- j)" unfolding m_def by (simp only: round_half_even_of_int)
    then have "of_int m * pow2 j = real_of_int n" by (simp add: q)
    then have "is_whole (Fin (of_int m * pow2 j))" by (simp only: is_whole.simps floor_of_int)
    then show ?thesis
      using False by (simp add: round64_def Let_def j_def [symmetric] m_def [symmetric])
  qed
qed

lemma pow2_mono: "a \<le> b \<Longrightarrow> pow2 a \<le> pow2 b"
  by (simp add: pow2_eq_powr)

lemma pow2_nat: "pow2 (int k) = 2 ^ k"
  by (simp add: pow2_def)

lemma round_half_even_bounds:
  "\<lfloor>x\<rfloor> \<le> round_half_even x \<and> round_half_even x \<le> \<lceil>x\<rceil>"
  unfolding round_half_even_def Let_def by (auto simp: ceiling_altdef)

lemma round_half_even_abs_le:
  assumes "\<bar>x\<bar> < of_int N"
  shows "\<bar>round_half_even x\<bar> \<le> N"
proof -
  have "round_half_even x \<le> \<lceil>x\<rceil>" "\<lfloor>x\<rfloor> \<le> round_half_even x"
    using round_half_even_bounds [of x] by simp_all
  moreover have "\<lceil>x\<rceil> \<le> N" using assms by (simp add: ceiling_le_iff)
  moreover have "- N \<le> \<lfloor>x\<rfloor>" using assms by (simp add: le_floor_iff)
  ultimately show ?thesis by linarith
qed

lemma round64_scaled:
  assumes m0: "m \<noteq> 0" and m53: "\<bar>m\<bar> < 2 ^ 53" and j: "j \<le> 971"
  shows "round64 (of_int m * 2 ^ j) = Fin (of_int m * 2 ^ j)"
proof -
  define x where "x = real_of_int m * 2 ^ j"
  define b where "b = bitlen \<bar>m\<bar>"
  define s where "s = nat (53 - b)"
  have mpos: "0 < \<bar>m\<bar>" using m0 by simp
  have b1: "1 \<le> b" using m0 by (simp add: b_def bitlen_alt_def)
  have b53: "b \<le> 53" using m53 by (simp add: b_def bitlen_le_iff_power)
  have ax: "\<bar>x\<bar> = real_of_int (\<bar>m\<bar> * 2 ^ j)" by (simp add: x_def abs_mult)
  have one: "1 \<le> \<bar>x\<bar>"
  proof -
    have "(1::int) * 1 \<le> \<bar>m\<bar> * 2 ^ j" using mpos by (intro mult_mono) simp_all
    then have "1 \<le> \<bar>m\<bar> * 2 ^ j" by simp
    then show ?thesis unfolding ax by linarith
  qed
  have fl: "\<lfloor>\<bar>x\<bar>\<rfloor> = \<bar>m\<bar> * 2 ^ j" unfolding ax by (rule floor_of_int)
  have e: "binade \<bar>x\<bar> = b + int j - 1"
    using one by (simp add: binade_def fl bitlen_pow2 [OF mpos] b_def)
  have mx: "max (binade \<bar>x\<bar>) (- 1022) = b + int j - 1" using b1 by (simp add: e)
  have ex: "b + int j - 1 - 52 = int j - int s" using b53 by (simp add: s_def)
  have "pow2 (int j) = pow2 (int j - int s) * pow2 (int s)"
    using pow2_add [of "int j - int s" "int s"] by simp
  then have split: "2 ^ j = pow2 (int j - int s) * 2 ^ s" by (simp add: pow2_nat)
  have qpos: "0 < pow2 (int j - int s)" by (rule pow2_pos)
  have "x / pow2 (int j - int s) = real_of_int m * 2 ^ s"
    using qpos by (simp add: x_def split)
  also have "\<dots> = real_of_int (m * 2 ^ s)" by simp
  finally have m2: "round_half_even (x / pow2 (int j - int s)) = m * 2 ^ s"
    by (simp only: round_half_even_of_int)
  have "\<bar>m\<bar> < 2 ^ nat b" using bitlen_bounds [OF mpos] by (simp add: b_def)
  then have "\<bar>m\<bar> * 2 ^ s < 2 ^ nat b * 2 ^ s" by simp
  also have "\<dots> = 2 ^ 53"
  proof -
    have "nat b + s = 53" using b1 b53 by (simp add: s_def)
    then show ?thesis by (simp only: flip: power_add)
  qed
  finally have small: "\<bar>m * 2 ^ s\<bar> < 2 ^ 53" by (simp add: abs_mult)
  have nov: "\<not> (1024 \<le> b + int j - 1 \<or> (b + int j - 1 = 1023 \<and> \<bar>m * 2 ^ s\<bar> = 2 ^ 53))"
    using b53 j small by auto
  have x0: "x \<noteq> 0" using one by auto
  have res: "real_of_int (m * 2 ^ s) * pow2 (int j - int s) = x"
    by (simp add: x_def split)
  show ?thesis
    unfolding x_def [symmetric] round64_def Let_def mx ex m2
    using x0 nov res by (simp only: if_False) 
qed

lemma round64_floor_exact:
  assumes r: "round64 x = Fin r"
  shows "round64 (of_int \<lfloor>r\<rfloor>) = Fin (of_int \<lfloor>r\<rfloor>)"
proof (cases "x = 0")
  case True
  then have "r = 0" using r by (simp add: round64_def)
  then show ?thesis by (simp add: round64_def)
next
  case False
  define e where "e = max (binade \<bar>x\<bar>) (- 1022)"
  define m where "m = round_half_even (x / pow2 (e - 52))"
  have nov: "\<not> (1024 \<le> e \<or> (e = 1023 \<and> \<bar>m\<bar> = 2 ^ 53))"
    and rv: "r = of_int m * pow2 (e - 52)"
    using r False
    by (auto simp: round64_def Let_def e_def [symmetric] m_def [symmetric] split: if_splits)
  have qpos: "0 < pow2 (e - 52)" by (rule pow2_pos)
  have "\<bar>x\<bar> < pow2 (binade \<bar>x\<bar> + 1)" using binade_bounds [of "\<bar>x\<bar>"] False by simp
  also have "\<dots> \<le> pow2 (e + 1)" by (rule pow2_mono) (simp add: e_def)
  also have "\<dots> = pow2 (e - 52) * 2 ^ 53"
  proof -
    have "e + 1 = (e - 52) + int 53" by simp
    then have "pow2 (e + 1) = pow2 (e - 52) * pow2 (int 53)" by (simp only: pow2_add)
    then show ?thesis by (simp only: pow2_nat)
  qed
  finally have "\<bar>x\<bar> / pow2 (e - 52) < 2 ^ 53"
    using qpos by (simp add: field_simps)
  then have "\<bar>x / pow2 (e - 52)\<bar> < real_of_int (2 ^ 53)"
    using qpos by (simp add: abs_divide abs_of_pos)
  then have m53: "\<bar>m\<bar> \<le> 2 ^ 53"
    unfolding m_def by (rule round_half_even_abs_le)
  show ?thesis
  proof (cases "e \<le> 51")
    case True
    define k where "k = nat (52 - e)"
    have k1: "1 \<le> k" using True by (simp add: k_def)
    have q: "pow2 (e - 52) = 1 / 2 ^ k" using True by (simp add: pow2_def k_def)
    have "(2::real) ^ 1 \<le> 2 ^ k" using k1 by (intro power_increasing) simp_all
    then have qh: "pow2 (e - 52) \<le> 1 / 2" by (simp add: q field_simps)
    have "\<bar>r\<bar> = real_of_int \<bar>m\<bar> * pow2 (e - 52)"
      using qpos by (simp add: rv abs_mult abs_of_pos)
    also have "\<dots> \<le> real_of_int (2 ^ 53) * (1 / 2)"
      using m53 qh qpos by (intro mult_mono) simp_all
    finally have "\<bar>r\<bar> \<le> 2 ^ 52" by simp
    then have rb: "- (2 ^ 52) \<le> r" "r \<le> 2 ^ 52" by linarith+
    define n where "n = \<lfloor>r\<rfloor>"
    from rb have "- (2 ^ 52) \<le> n" "n \<le> 2 ^ 52"
      unfolding n_def by (simp_all add: le_floor_iff floor_le_iff)
    then have "\<bar>n\<bar> < 2 ^ 53" by simp
    then show ?thesis unfolding n_def by (rule round64_of_int)
  next
    case ge: False
    define j where "j = nat (e - 52)"
    have e1023: "e \<le> 1023" using nov by linarith
    have j971: "j \<le> 971" using e1023 by (simp add: j_def)
    have q: "pow2 (e - 52) = 2 ^ j" using ge by (simp add: pow2_def j_def)
    have rint: "r = real_of_int (m * 2 ^ j)" by (simp add: rv q)
    have fl: "real_of_int \<lfloor>r\<rfloor> = real_of_int m * 2 ^ j"
      unfolding rint by simp
    consider "m = 0" | "m \<noteq> 0" "\<bar>m\<bar> < 2 ^ 53" | "\<bar>m\<bar> = 2 ^ 53"
      using m53 by linarith
    then show ?thesis
    proof cases
      case 1
      then show ?thesis by (simp add: fl round64_def)
    next
      case 2
      then show ?thesis unfolding fl using j971 by (intro round64_scaled)
    next
      case 3
      then have "e \<noteq> 1023" using nov by auto
      then have j970: "Suc j \<le> 971" using e1023 ge by (simp add: j_def)
      from 3 have "m = 2 ^ 53 \<or> m = - (2 ^ 53)" by linarith
      then obtain h where h: "m = 2 * h" "h \<noteq> 0" "\<bar>h\<bar> < 2 ^ 53"
      proof
        assume "m = 2 ^ 53"
        then have "m = 2 * 2 ^ 52" "(2::int) ^ 52 \<noteq> 0" "\<bar>(2::int) ^ 52\<bar> < 2 ^ 53" by simp_all
        then show ?thesis by (rule that)
      next
        assume "m = - (2 ^ 53)"
        then have "m = 2 * (- (2 ^ 52))" "- ((2::int) ^ 52) \<noteq> 0" "\<bar>- ((2::int) ^ 52)\<bar> < 2 ^ 53"
          by simp_all
        then show ?thesis by (rule that)
      qed
      have eq: "real_of_int m * 2 ^ j = real_of_int h * 2 ^ Suc j" by (simp add: h(1))
      show ?thesis
        unfolding fl eq by (rule round64_scaled [OF h(2) h(3) j970])
    qed
  qed
qed


lemma pow2_less_cancel: "pow2 a < pow2 b \<Longrightarrow> a < b"
  by (simp add: pow2_eq_powr)

lemma round64_overflow:
  assumes "2 ^ 1024 \<le> x"
  shows "round64 x = PosInf"
proof -
  have "(0::real) < 2 ^ 1024" by simp
  then have x: "0 < x" using assms by linarith
  have "pow2 (int 1024) \<le> x" using assms by (simp only: pow2_nat)
  also have "x < pow2 (binade x + 1)" using binade_bounds [OF x] by simp
  finally have "1024 \<le> binade x" using pow2_less_cancel [of "int 1024" "binade x + 1"] by simp
  then show ?thesis using x by (simp add: round64_def Let_def)
qed

lemma round64_zero [simp]: "round64 0 = Fin 0"
  by (simp add: round64_def)

lemma round64_one [simp]: "round64 1 = Fin 1"
  using round64_of_int [of 1] by simp

lemma round64_half: "round64 (1 / 2) = Fin (1 / 2)"
  by code_simp

lemma round64_6003_4: "round64 (6003 / 4) = Fin (6003 / 4)"
  by code_simp

lemma round64_37_10: "round64 (37 / 10) = Fin (4165829655317709 / 2 ^ 50)"
  by code_simp


lemma round64_overflow_neg:
  "- (2 ^ 1024) \<ge> x \<Longrightarrow> round64 x = NegInf"
proof -
  assume a: "- (2 ^ 1024) \<ge> x"
  moreover have "(0::real) < 2 ^ 1024" by simp
  ultimately have x: "x < 0" by linarith
  have ax: "0 < \<bar>x\<bar>" using x by simp
  have "pow2 (int 1024) \<le> \<bar>x\<bar>" using a x by (simp only: pow2_nat)
  also have "\<bar>x\<bar> < pow2 (binade \<bar>x\<bar> + 1)" using binade_bounds [OF ax] by simp
  finally have "1024 \<le> binade \<bar>x\<bar>"
    using pow2_less_cancel [of "int 1024" "binade \<bar>x\<bar> + 1"] by simp
  then show ?thesis using x by (simp add: round64_def Let_def)
qed

text \<open>The sum and the product as binary64 computes them, where the exact result is not a
  binary64 value: the product of \<open>0.57\<close> and \<open>1000\<close> is \<open>570\<close> although the exact product of
  the binary64 value of \<open>0.57\<close> and \<open>1000\<close> is below \<open>570\<close>; \<open>2\<^sup>5\<^sup>3 + 1\<close> is \<open>2\<^sup>5\<^sup>3\<close>; and
  \<open>2\<^sup>1\<^sup>0\<^sup>2\<^sup>3 + 2\<^sup>1\<^sup>0\<^sup>2\<^sup>3\<close> is \<open>Infinity\<close>.\<close>

lemma binary64_examples:
  "round64 0.57 = Fin (5134103575202365 / 2 ^ 53)"
  "5134103575202365 / 2 ^ 53 * 1000 < (570 :: real)"
  "js_floor (js_mul (round64 0.57) (Fin 1000)) = Fin 570"
  "js_floor (js_mul (round64 0.009) (Fin 1000)) = Fin 9"
  "js_add (Fin (2 ^ 53)) (Fin 1) = Fin (2 ^ 53)"
  "js_add (Fin (2 ^ 1023)) (Fin (2 ^ 1023)) = PosInf"
proof -
  show "round64 0.57 = Fin (5134103575202365 / 2 ^ 53)" by code_simp
  show "5134103575202365 / 2 ^ 53 * 1000 < (570 :: real)" by simp
  show "js_floor (js_mul (round64 0.57) (Fin 1000)) = Fin 570" by code_simp
  show "js_floor (js_mul (round64 0.009) (Fin 1000)) = Fin 9" by code_simp
  show "js_add (Fin (2 ^ 53)) (Fin 1) = Fin (2 ^ 53)" by code_simp
  show "js_add (Fin (2 ^ 1023)) (Fin (2 ^ 1023)) = PosInf"
    by (simp only: js_add.simps) (rule round64_overflow, simp)
qed

text \<open>What \<open>Math.floor\<close> returns is a binary64 value, so adding it to \<open>0\<close> returns it.\<close>

lemma js_add_zero_floor: "js_add (Fin 0) (js_floor (js_mul a b)) = js_floor (js_mul a b)"
proof (cases "js_mul a b")
  case (Fin r)
  then obtain x where "round64 x = Fin r"
    by (cases a; cases b) (auto split: if_splits)
  then have "round64 (of_int \<lfloor>r\<rfloor>) = Fin (of_int \<lfloor>r\<rfloor>)" by (rule round64_floor_exact)
  then show ?thesis using Fin by simp
qed simp_all

lemma is_whole_add:
  assumes "is_whole a" "is_whole b"
  shows "is_whole (js_add a b) \<or> js_add a b = PosInf \<or> js_add a b = NegInf"
proof -
  from assms obtain x y where a: "a = Fin x" and b: "b = Fin y"
    by (cases a; cases b) simp_all
  from assms a b obtain i j where "x = of_int i" "y = of_int j"
    by (metis is_whole.simps(1))
  then have "x + y = of_int (i + j)" by simp
  then show ?thesis using round64_whole [of "i + j"] by (simp add: a b)
qed

section \<open>Basic facts\<close>

lemma new_t_fields:
  "fst new_t =
     \<lparr>name = ''t'', isAuto = False, state = UNINITIALIZED, startTimeUs = None,
      durationUs = None, customAttributes = 0, counters = Map.empty, randomId = 42,
      traceStartMark = Some ''START-42-t'', traceStopMark = Some ''STOP-42-t'',
      traceMeasure = Some ''MEASURE-42-t''\<rparr>"
  by (simp add: new_t_def Trace_new_def alloc_def host_sys_def host_constants_def
      string_of_nat.simps digit_char_def)

lemma new_t_sys:
  "snd new_t = \<lparr>objects = (\<lambda>r. Map.empty), fresh = Suc 0, world = [], reported = []\<rparr>"
  by (simp add: new_t_def Trace_new_def alloc_def host_sys_def fun_upd_idem)

lemma start_cases:
  "start api t s =
     (if state t = UNINITIALIZED
      then (None, t\<lparr>state := RUNNING\<rparr>, s\<lparr>world := api_mark api (traceStartMark t) (world s)\<rparr>)
      else (Some (FirebaseError TRACE_STARTED_BEFORE (name t)), t, s))"
  by (simp add: start_def)

lemma state_calculateTraceMetrics [simp]: "state (calculateTraceMetrics api t w) = state t"
  by (simp add: calculateTraceMetrics_def split: option.splits list.splits)

lemma fst_stop:
  "fst (stop api t s) =
     (if state t = RUNNING then None else Some (FirebaseError TRACE_STOPPED_BEFORE (name t)))"
  by (simp add: stop_def Let_def)

lemma state_stop:
  "state (fst (snd (stop api t s))) = (if state t = RUNNING then TERMINATED else state t)"
  by (simp add: stop_def Let_def)

lemma state_record_trace [simp]: "state (fst (record_trace sn st d opts t s)) = state t"
  by (simp add: record_trace_def alloc_def Let_def split: option.splits prod.splits)

lemma state_incrementMetric [simp]: "state (incrementMetric c n t) = state t"
  by (simp add: incrementMetric_def Let_def split: option.splits)

lemma state_putMetric [simp]: "state (putMetric c n t) = state t"
  by (simp add: putMetric_def)

lemma started_t_eq:
  "started_t =
     ((fst new_t)\<lparr>state := RUNNING\<rparr>,
      (snd new_t)\<lparr>world := [entry_of (Some ''START-42-t'') 0.5 0]\<rparr>)"
  unfolding started_t_def
  by (subst surjective_pairing [of new_t], subst exec.simps)
     (simp add: start_def new_t_fields new_t_sys host_api_def)

lemma stopped_t_trace:
  "fst stopped_t =
     (fst new_t)\<lparr>state := TERMINATED, durationUs := Some (Fin 1000),
       startTimeUs := Some (Fin 1500750)\<rparr>"
  unfolding stopped_t_def started_t_eq
  by (simp add: stop_def new_t_fields new_t_sys host_api_def calculateTraceMetrics_def
      entry_of_def mark_time_def Let_def logTrace_def round64_6003_4)

lemma state_exec_Start_after_stop:
  "state (fst (snd (exec host_sn host_api Start stopped_t))) = TERMINATED"
proof -
  obtain t s where ts: "stopped_t = (t, s)" by (cases stopped_t)
  have "state (fst stopped_t) = TERMINATED" by (simp add: stopped_t_trace new_t_fields)
  then have "state t = TERMINATED" by (simp add: ts)
  then show ?thesis unfolding ts by (simp add: start_cases)
qed

lemma state_value_exec:
  "state_value (state t) \<le> state_value (state (fst (snd (exec sn api c (t, s)))))"
  by (cases c; cases "state t") (simp_all add: start_cases state_stop)

lemma state_value_run:
  "state_value (state (fst ts)) \<le> state_value (state (fst (run sn api cs ts)))"
proof (induction cs arbitrary: ts)
  case Nil
  show ?case by simp
next
  case (Cons c cs)
  obtain t s where ts: "ts = (t, s)" by (cases ts)
  have "state_value (state (fst ts)) \<le> state_value (state (fst (snd (exec sn api c ts))))"
    unfolding ts using state_value_exec [of t sn api c s] by simp
  also have "\<dots> \<le> state_value (state (fst (run sn api cs (snd (exec sn api c ts)))))"
    by (rule Cons.IH)
  finally show ?case by simp
qed

section \<open>Counters: \<open>putMetric\<close>, \<open>incrementMetric\<close>, \<open>getMetric\<close>\<close>

text \<open>
  C1, as the code has it. \<open>putMetric(c, v)\<close> stores \<open>v\<close> itself and \<open>incrementMetric(c, v)\<close>
  stores the binary64 sum of the previous value (\<open>0\<close> when the counter is absent) and \<open>v\<close>
  (\<open>1\<close> when no \<open>v\<close> is given); neither floors nor truncates. This is for a counter name that
  is not the name of a property inherited from \<open>Object.prototype\<close> (for \<open>putMetric\<close>, not
  \<open>__proto__\<close>). When \<open>v\<close> and the previous value are whole numbers, the sum stored is a whole
  number, or an infinity when it overflows.
\<close>

theorem metric_stored_as_given:
  "(c \<noteq> ''__proto__'' \<longrightarrow> counters (putMetric c v t) c = Some v)
   \<and> (c \<notin> set Object_prototype_keys \<longrightarrow>
        counters (incrementMetric c (Some v) t) c =
          Some (js_add (case counters t c of None \<Rightarrow> Fin 0 | Some old \<Rightarrow> old) v)
        \<and> counters (incrementMetric c None t) c =
          Some (js_add (case counters t c of None \<Rightarrow> Fin 0 | Some old \<Rightarrow> old) (Fin 1)))
   \<and> (is_whole v \<and> is_whole (case counters t c of None \<Rightarrow> Fin 0 | Some old \<Rightarrow> old)
        \<longrightarrow> is_whole (js_add (case counters t c of None \<Rightarrow> Fin 0 | Some old \<Rightarrow> old) v)
          \<or> js_add (case counters t c of None \<Rightarrow> Fin 0 | Some old \<Rightarrow> old) v = PosInf
          \<or> js_add (case counters t c of None \<Rightarrow> Fin 0 | Some old \<Rightarrow> old) v = NegInf)"
proof (intro conjI impI)
  show "counters (putMetric c v t) c = Some v"
    by (simp add: putMetric_def)
  show "counters (incrementMetric c (Some v) t) c =
          Some (js_add (case counters t c of None \<Rightarrow> Fin 0 | Some old \<Rightarrow> old) v)"
    by (simp add: incrementMetric_def split: option.splits)
  show "counters (incrementMetric c None t) c =
          Some (js_add (case counters t c of None \<Rightarrow> Fin 0 | Some old \<Rightarrow> old) (Fin 1))"
    by (simp add: incrementMetric_def split: option.splits)
next
  assume "is_whole v \<and> is_whole (case counters t c of None \<Rightarrow> Fin 0 | Some old \<Rightarrow> old)"
  then show "is_whole (js_add (case counters t c of None \<Rightarrow> Fin 0 | Some old \<Rightarrow> old) v)
          \<or> js_add (case counters t c of None \<Rightarrow> Fin 0 | Some old \<Rightarrow> old) v = PosInf
          \<or> js_add (case counters t c of None \<Rightarrow> Fin 0 | Some old \<Rightarrow> old) v = NegInf"
    using is_whole_add by blast
qed

text \<open>The statement above on the fresh trace: \<open>x\<close> is not an inherited name,
  \<open>putMetric(''x'', 3)\<close> stores \<open>3\<close>, and after \<open>putMetric(''x'', 2)\<close> an increment by \<open>5\<close> stores
  \<open>7\<close> and an increment with no amount stores \<open>3\<close>.\<close>

theorem metric_stored_as_given_witness:
  "''x'' \<noteq> ''__proto__'' \<and> ''x'' \<notin> set Object_prototype_keys
   \<and> counters (putMetric ''x'' (Fin 3) (fst new_t)) ''x'' = Some (Fin 3)
   \<and> counters (incrementMetric ''x'' (Some (Fin 5)) (putMetric ''x'' (Fin 2) (fst new_t))) ''x''
       = Some (Fin 7)
   \<and> counters (incrementMetric ''x'' None (putMetric ''x'' (Fin 2) (fst new_t))) ''x''
       = Some (Fin 3)
   \<and> is_whole (Fin 5) \<and> is_whole (Fin 2) \<and> is_whole (Fin 7)"
  using metric_stored_as_given [of "''x''" "Fin 3" "fst new_t"]
    metric_stored_as_given [of "''x''" "Fin 5" "putMetric ''x'' (Fin 2) (fst new_t)"]
  by (simp add: putMetric_def Object_prototype_keys_def)

text \<open>
  C1 as the spec states it fails: on the fresh trace, \<open>putMetric(''x'', 3.7)\<close> stores \<open>3.7\<close>
  (the binary64 value of the literal), not its truncation, so \<open>getMetric(''x'')\<close> returns
  \<open>3.7\<close> and not \<open>3\<close>; and \<open>incrementMetric(''x'', 0.5)\<close> leaves the counter at \<open>0.5\<close>, which is
  not a whole number.
\<close>

theorem putMetric_keeps_fraction:
  "counters (putMetric ''x'' (round64 3.7) (fst new_t)) ''x''
       \<noteq> Some (trunc_toward_zero (round64 3.7))
   \<and> getMetric ''x'' (putMetric ''x'' (round64 3.7) (fst new_t)) = round64 3.7
   \<and> getMetric ''x'' (putMetric ''x'' (round64 3.7) (fst new_t)) \<noteq> Fin 3
   \<and> getMetric ''x'' (incrementMetric ''x'' (Some (Fin 0.5)) (fst new_t)) = Fin 0.5
   \<and> \<not> is_whole (getMetric ''x'' (incrementMetric ''x'' (Some (Fin 0.5)) (fst new_t)))"
  by (simp add: new_t_fields putMetric_def getMetric_def incrementMetric_def
      trunc_toward_zero_def round64_half round64_37_10)

section \<open>The state machine: \<open>start\<close> and \<open>stop\<close>\<close>

text \<open>
  C2. \<open>start()\<close> on a trace whose state is not \<open>UNINITIALIZED\<close> throws the error
  \<open>TRACE_STARTED_BEFORE\<close> with the trace name, and \<open>stop()\<close> on a trace whose state is not
  \<open>RUNNING\<close> throws \<open>TRACE_STOPPED_BEFORE\<close> with the trace name; in both cases the trace
  and the state around it are as before the call. Of all calls on a trace these two are
  the only ones that throw, and a call that throws changes nothing.
\<close>

theorem out_of_order_calls_fail:
  "(state t \<noteq> UNINITIALIZED \<longrightarrow>
      start api t s = (Some (FirebaseError TRACE_STARTED_BEFORE (name t)), t, s))
   \<and> (state t \<noteq> RUNNING \<longrightarrow>
      stop api t s = (Some (FirebaseError TRACE_STOPPED_BEFORE (name t)), t, s))
   \<and> (fst (exec sn api c (t, s)) \<noteq> None \<longleftrightarrow>
        (c = Start \<and> state t \<noteq> UNINITIALIZED) \<or> (c = Stop \<and> state t \<noteq> RUNNING))
   \<and> (fst (exec sn api c (t, s)) \<noteq> None \<longrightarrow> snd (exec sn api c (t, s)) = (t, s))"
proof (intro conjI)
  show "state t \<noteq> UNINITIALIZED \<longrightarrow>
      start api t s = (Some (FirebaseError TRACE_STARTED_BEFORE (name t)), t, s)"
    by (simp add: start_def)
  show "state t \<noteq> RUNNING \<longrightarrow>
      stop api t s = (Some (FirebaseError TRACE_STOPPED_BEFORE (name t)), t, s)"
    by (simp add: stop_def)
  show "fst (exec sn api c (t, s)) \<noteq> None \<longleftrightarrow>
        (c = Start \<and> state t \<noteq> UNINITIALIZED) \<or> (c = Stop \<and> state t \<noteq> RUNNING)"
    by (cases c) (simp_all add: start_cases fst_stop)
  show "fst (exec sn api c (t, s)) \<noteq> None \<longrightarrow> snd (exec sn api c (t, s)) = (t, s)"
    by (cases c) (simp_all add: start_def stop_def Let_def)
qed

text \<open>On the concrete host: a second \<open>start()\<close> on the started trace, and \<open>stop()\<close> on the
  fresh trace, throw with the name \<open>t\<close> and change nothing.\<close>

theorem out_of_order_calls_fail_witness:
  "state (fst started_t) \<noteq> UNINITIALIZED
   \<and> start host_api (fst started_t) (snd started_t) =
       (Some (FirebaseError TRACE_STARTED_BEFORE ''t''), fst started_t, snd started_t)
   \<and> state (fst new_t) \<noteq> RUNNING
   \<and> stop host_api (fst new_t) (snd new_t) =
       (Some (FirebaseError TRACE_STOPPED_BEFORE ''t''), fst new_t, snd new_t)
   \<and> fst (exec host_sn host_api Stop (fst new_t, snd new_t)) \<noteq> None
   \<and> snd (exec host_sn host_api Stop (fst new_t, snd new_t)) = (fst new_t, snd new_t)"
  using out_of_order_calls_fail [of "fst started_t" host_api "snd started_t" host_sn Start]
    out_of_order_calls_fail [of "fst new_t" host_api "snd new_t" host_sn Stop]
  by (simp add: started_t_eq new_t_fields)

text \<open>
  C3. One call changes the state not at all, or from \<open>UNINITIALIZED\<close> to \<open>RUNNING\<close> when
  it is \<open>start\<close>, or from \<open>RUNNING\<close> to \<open>TERMINATED\<close> when it is \<open>stop\<close>; a call other than
  \<open>start\<close> and \<open>stop\<close> leaves the state as it is. So along any sequence of calls the state
  never goes back, and one call advances it by one step at most.
\<close>

theorem state_only_advances:
  "(state (fst (snd (exec sn api c (t, s)))) = state t
      \<or> (c = Start \<and> state t = UNINITIALIZED
           \<and> state (fst (snd (exec sn api c (t, s)))) = RUNNING)
      \<or> (c = Stop \<and> state t = RUNNING
           \<and> state (fst (snd (exec sn api c (t, s)))) = TERMINATED))
   \<and> (c \<noteq> Start \<and> c \<noteq> Stop \<longrightarrow> state (fst (snd (exec sn api c (t, s)))) = state t)
   \<and> state_value (state t) \<le> state_value (state (fst (run sn api cs (t, s))))
   \<and> state_value (state (fst (snd (exec sn api c (t, s))))) \<le> Suc (state_value (state t))"
proof (intro conjI)
  show "state (fst (snd (exec sn api c (t, s)))) = state t
      \<or> (c = Start \<and> state t = UNINITIALIZED
           \<and> state (fst (snd (exec sn api c (t, s)))) = RUNNING)
      \<or> (c = Stop \<and> state t = RUNNING
           \<and> state (fst (snd (exec sn api c (t, s)))) = TERMINATED)"
    by (cases c) (simp_all add: start_cases state_stop)
  show "c \<noteq> Start \<and> c \<noteq> Stop \<longrightarrow> state (fst (snd (exec sn api c (t, s)))) = state t"
    by (cases c) simp_all
  show "state_value (state t) \<le> state_value (state (fst (run sn api cs (t, s))))"
    using state_value_run [of "(t, s)" sn api cs] by simp
  show "state_value (state (fst (snd (exec sn api c (t, s))))) \<le> Suc (state_value (state t))"
    by (cases c; cases "state t") (simp_all add: start_cases state_stop)
qed

text \<open>On the concrete host, from the started trace: \<open>putMetric\<close> leaves the state
  \<open>RUNNING\<close>, and \<open>stop()\<close> followed by a (failing) \<open>start()\<close> ends in \<open>TERMINATED\<close>.\<close>

theorem state_only_advances_witness:
  "PutMetric ''x'' (Fin 1) \<noteq> Start \<and> PutMetric ''x'' (Fin 1) \<noteq> Stop
   \<and> state (fst (snd (exec host_sn host_api (PutMetric ''x'' (Fin 1)) (fst started_t, snd started_t))))
       = RUNNING
   \<and> state (fst started_t) = RUNNING
   \<and> state_value (state (fst started_t))
       \<le> state_value (state (fst (run host_sn host_api [Stop, Start] (fst started_t, snd started_t))))
   \<and> state (fst (run host_sn host_api [Stop, Start] (fst started_t, snd started_t))) = TERMINATED"
proof -
  have r: "run host_sn host_api [Stop, Start] started_t
             = snd (exec host_sn host_api Start stopped_t)"
    by (simp add: stopped_t_def)
  have st: "state (fst started_t) = RUNNING"
    by (simp add: started_t_eq)
  show ?thesis
    using state_only_advances [of host_sn host_api "PutMetric ''x'' (Fin 1)" "fst started_t"
        "snd started_t" "[Stop, Start]"]
    by (simp add: r st state_exec_Start_after_stop stopped_t_def [symmetric])
qed

section \<open>Start time and duration from a measurement\<close>

lemma calculateTraceMetrics_found:
  "api_getEntriesByName api (traceMeasure t) w = Some (e # es) \<Longrightarrow>
   calculateTraceMetrics api t w =
     t\<lparr>durationUs := Some (js_floor (js_mul (duration e) (Fin 1000))),
       startTimeUs := Some (js_floor (js_mul
         (js_add (startTime e) (api_getTimeOrigin api w)) (Fin 1000)))\<rparr>"
  by (simp add: calculateTraceMetrics_def)

lemma calculateTraceMetrics_absent:
  "api_getEntriesByName api (traceMeasure t) w = Some [] \<or>
   api_getEntriesByName api (traceMeasure t) w = None \<Longrightarrow>
   calculateTraceMetrics api t w = t"
  by (auto simp: calculateTraceMetrics_def)

lemma world_logTrace [simp]: "world (logTrace t s) = world s"
  by (simp add: logTrace_def)

lemma stop_running:
  "state t = RUNNING \<Longrightarrow>
   stop api t s =
     (None,
      calculateTraceMetrics api (t\<lparr>state := TERMINATED\<rparr>)
        (api_measure api (traceMeasure t) (traceStartMark t) (traceStopMark t)
           (api_mark api (traceStopMark t) (world s))),
      logTrace
        (calculateTraceMetrics api (t\<lparr>state := TERMINATED\<rparr>)
           (api_measure api (traceMeasure t) (traceStartMark t) (traceStopMark t)
              (api_mark api (traceStopMark t) (world s))))
        (s\<lparr>world := api_measure api (traceMeasure t) (traceStartMark t) (traceStopMark t)
              (api_mark api (traceStopMark t) (world s))\<rparr>))"
  by (simp add: stop_def Let_def)

lemma Trace_new_user_timing:
  "m \<noteq> [] \<Longrightarrow>
   fst (Trace_new k api nm False (Some m) rid s) =
     calculateTraceMetrics api
       \<lparr>name = nm, isAuto = False, state = UNINITIALIZED, startTimeUs = None,
        durationUs = None, customAttributes = fresh s, counters = Map.empty,
        randomId = rid,
        traceStartMark = Some (TRACE_START_MARK_PREFIX k @ ''-'' @ string_of_nat rid @ ''-'' @ nm),
        traceStopMark = Some (TRACE_STOP_MARK_PREFIX k @ ''-'' @ string_of_nat rid @ ''-'' @ nm),
        traceMeasure = Some m\<rparr>
       (world s)"
  by (simp add: Trace_new_def alloc_def Let_def)

text \<open>
  C4. Where the metrics are computed from a measurement, in \<open>stop()\<close> and in the
  constructor when a measure name is given: if \<open>getEntriesByName\<close> returns at least one
  entry for the measure name, then \<open>durationUs\<close> is the floor of the first entry's duration
  times \<open>1000\<close> and \<open>startTimeUs\<close> the floor of its start time plus the time origin, times
  \<open>1000\<close>, sum and products being those of binary64; if it returns no entry (or no array),
  both fields stay as they were, unset in the constructor, and nothing is thrown.
\<close>

theorem measurement_metrics:
  "(state t = RUNNING \<and>
      api_getEntriesByName api (traceMeasure t) (world (snd (snd (stop api t s)))) = Some (e # es)
    \<longrightarrow> fst (stop api t s) = None
      \<and> durationUs (fst (snd (stop api t s))) = Some (js_floor (js_mul (duration e) (Fin 1000)))
      \<and> startTimeUs (fst (snd (stop api t s))) =
          Some (js_floor (js_mul
            (js_add (startTime e) (api_getTimeOrigin api (world (snd (snd (stop api t s))))))
            (Fin 1000))))
   \<and> (state t = RUNNING \<and>
        (api_getEntriesByName api (traceMeasure t) (world (snd (snd (stop api t s)))) = Some [] \<or>
         api_getEntriesByName api (traceMeasure t) (world (snd (snd (stop api t s)))) = None)
      \<longrightarrow> fst (stop api t s) = None
        \<and> durationUs (fst (snd (stop api t s))) = durationUs t
        \<and> startTimeUs (fst (snd (stop api t s))) = startTimeUs t)
   \<and> (m \<noteq> [] \<and> api_getEntriesByName api (Some m) (world s) = Some (e # es)
      \<longrightarrow> durationUs (fst (Trace_new k api nm False (Some m) rid s)) =
            Some (js_floor (js_mul (duration e) (Fin 1000)))
        \<and> startTimeUs (fst (Trace_new k api nm False (Some m) rid s)) =
            Some (js_floor (js_mul (js_add (startTime e) (api_getTimeOrigin api (world s)))
              (Fin 1000))))
   \<and> (m \<noteq> [] \<and> (api_getEntriesByName api (Some m) (world s) = Some [] \<or>
                  api_getEntriesByName api (Some m) (world s) = None)
      \<longrightarrow> durationUs (fst (Trace_new k api nm False (Some m) rid s)) = None
        \<and> startTimeUs (fst (Trace_new k api nm False (Some m) rid s)) = None)"
proof (intro conjI impI)
  assume h: "state t = RUNNING \<and>
      api_getEntriesByName api (traceMeasure t) (world (snd (snd (stop api t s)))) = Some (e # es)"
  then have r: "state t = RUNNING" by simp
  let ?w = "api_measure api (traceMeasure t) (traceStartMark t) (traceStopMark t)
           (api_mark api (traceStopMark t) (world s))"
  have w: "world (snd (snd (stop api t s))) = ?w"
    by (simp add: stop_running [OF r])
  from h have f: "api_getEntriesByName api (traceMeasure (t\<lparr>state := TERMINATED\<rparr>)) ?w = Some (e # es)"
    by (simp add: w)
  show "fst (stop api t s) = None" by (simp add: stop_running [OF r])
  show "durationUs (fst (snd (stop api t s))) = Some (js_floor (js_mul (duration e) (Fin 1000)))"
    by (simp add: stop_running [OF r] calculateTraceMetrics_found [OF f])
  show "startTimeUs (fst (snd (stop api t s))) =
          Some (js_floor (js_mul
            (js_add (startTime e) (api_getTimeOrigin api (world (snd (snd (stop api t s))))))
            (Fin 1000)))"
    unfolding w by (simp add: stop_running [OF r] calculateTraceMetrics_found [OF f])
next
  assume h: "state t = RUNNING \<and>
        (api_getEntriesByName api (traceMeasure t) (world (snd (snd (stop api t s)))) = Some [] \<or>
         api_getEntriesByName api (traceMeasure t) (world (snd (snd (stop api t s)))) = None)"
  then have r: "state t = RUNNING" by simp
  let ?w = "api_measure api (traceMeasure t) (traceStartMark t) (traceStopMark t)
           (api_mark api (traceStopMark t) (world s))"
  have w: "world (snd (snd (stop api t s))) = ?w"
    by (simp add: stop_running [OF r])
  from h have f: "api_getEntriesByName api (traceMeasure (t\<lparr>state := TERMINATED\<rparr>)) ?w = Some [] \<or>
      api_getEntriesByName api (traceMeasure (t\<lparr>state := TERMINATED\<rparr>)) ?w = None"
    by (simp add: w)
  show "fst (stop api t s) = None" by (simp add: stop_running [OF r])
  show "durationUs (fst (snd (stop api t s))) = durationUs t"
    by (simp add: stop_running [OF r] calculateTraceMetrics_absent [OF f])
  show "startTimeUs (fst (snd (stop api t s))) = startTimeUs t"
    by (simp add: stop_running [OF r] calculateTraceMetrics_absent [OF f])
next
  assume h: "m \<noteq> [] \<and> api_getEntriesByName api (Some m) (world s) = Some (e # es)"
  then have m: "m \<noteq> []" by simp
  show "durationUs (fst (Trace_new k api nm False (Some m) rid s)) =
            Some (js_floor (js_mul (duration e) (Fin 1000)))"
    using h by (simp add: Trace_new_user_timing [OF m] calculateTraceMetrics_def)
  show "startTimeUs (fst (Trace_new k api nm False (Some m) rid s)) =
            Some (js_floor (js_mul (js_add (startTime e) (api_getTimeOrigin api (world s)))
              (Fin 1000)))"
    using h by (simp add: Trace_new_user_timing [OF m] calculateTraceMetrics_def)
next
  assume h: "m \<noteq> [] \<and> (api_getEntriesByName api (Some m) (world s) = Some [] \<or>
                  api_getEntriesByName api (Some m) (world s) = None)"
  then have m: "m \<noteq> []" by simp
  show "durationUs (fst (Trace_new k api nm False (Some m) rid s)) = None"
    using h by (auto simp: Trace_new_user_timing [OF m] calculateTraceMetrics_def)
  show "startTimeUs (fst (Trace_new k api nm False (Some m) rid s)) = None"
    using h by (auto simp: Trace_new_user_timing [OF m] calculateTraceMetrics_def)
qed

lemma started_t_world:
  "world (snd (snd (stop host_api (fst started_t) (snd started_t)))) =
     [entry_of (Some ''START-42-t'') 0.5 0, entry_of (Some ''STOP-42-t'') 1.5 0,
      entry_of (Some ''MEASURE-42-t'') 0.5 1]"
  by (simp add: started_t_eq stop_def new_t_fields new_t_sys host_api_def Let_def
      entry_of_def mark_time_def)

text \<open>On the concrete host: stopping the started trace finds the measure of 1 ms starting
  at 0.5 ms, which gives 1000 and 1500750 microseconds; a trace built on a measure name with
  no entry has both fields unset.\<close>

theorem measurement_metrics_witness:
  "state (fst started_t) = RUNNING
   \<and> api_getEntriesByName host_api (traceMeasure (fst started_t))
        (world (snd (snd (stop host_api (fst started_t) (snd started_t)))))
       = Some [entry_of (Some ''MEASURE-42-t'') 0.5 1]
   \<and> fst (stop host_api (fst started_t) (snd started_t)) = None
   \<and> durationUs (fst (snd (stop host_api (fst started_t) (snd started_t)))) = Some (Fin 1000)
   \<and> startTimeUs (fst (snd (stop host_api (fst started_t) (snd started_t))))
       = Some (Fin 1500750)
   \<and> api_getEntriesByName host_api (Some ''gone'') (world host_sys) = Some []
   \<and> durationUs (fst (Trace_new host_constants host_api ''gone'' False (Some ''gone'') 7 host_sys))
       = None
   \<and> startTimeUs (fst (Trace_new host_constants host_api ''gone'' False (Some ''gone'') 7 host_sys))
       = None"
proof -
  have a: "state (fst started_t) = RUNNING" by (simp add: started_t_eq)
  have b: "api_getEntriesByName host_api (traceMeasure (fst started_t))
        (world (snd (snd (stop host_api (fst started_t) (snd started_t)))))
       = Some [entry_of (Some ''MEASURE-42-t'') 0.5 1]"
    unfolding started_t_world
    by (simp add: started_t_eq new_t_fields host_api_def entry_of_def)
  have c: "api_getTimeOrigin host_api
        (world (snd (snd (stop host_api (fst started_t) (snd started_t))))) = Fin 1500.25"
    by (simp add: host_api_def)
  have d: "api_getEntriesByName host_api (Some ''gone'') (world host_sys) = Some []"
    by (simp add: host_api_def host_sys_def)
  show ?thesis
    using measurement_metrics [where t = "fst started_t" and api = host_api
        and s = "snd started_t" and e = "entry_of (Some ''MEASURE-42-t'') 0.5 1" and es = "[]"
        and m = "''MEASURE-42-t''" and k = host_constants and nm = "''t''" and rid = 42]
      measurement_metrics [where t = "fst new_t" and api = host_api
        and s = host_sys and m = "''gone''" and k = host_constants and nm = "''gone''"
        and rid = 7]
      a b c d
    by (simp add: entry_of_def round64_6003_4)
qed

section \<open>\<open>record\<close>\<close>


lemma record_trace_fields:
  "durationUs (fst (record_trace sn st d opts t s)) = Some (js_floor (js_mul d (Fin 1000)))"
  "startTimeUs (fst (record_trace sn st d opts t s)) = Some (js_floor (js_mul st (Fin 1000)))"
  "reported (snd (record_trace sn st d opts t s)) =
     reported s @ [fst (record_trace sn st d opts t s)]"
  by (simp_all add: record_trace_def alloc_def logTrace_def Let_def
      split: option.splits prod.splits)








lemma exec_Stop_pair: "exec sn api Stop ts = stop api (fst ts) (snd ts)"
  by (cases ts) simp

lemma stopped_t_sys:
  "reported (snd stopped_t) = [fst stopped_t]"
  unfolding stopped_t_def started_t_eq
  by (simp add: stop_def new_t_fields new_t_sys Let_def logTrace_def)

text \<open>
  C7. \<open>record\<close> never throws, leaves the state of the trace as it is, whatever it is, and
  hands the trace to the reporter. So a running trace that is stopped (and reported by
  \<open>stop()\<close>) and then recorded is reported a second time, still \<open>TERMINATED\<close>.
\<close>

theorem record_ignores_state:
  "fst (exec sn api (Record st d opts) (t, s)) = None
   \<and> state (fst (record_trace sn st d opts t s)) = state t
   \<and> reported (snd (record_trace sn st d opts t s)) =
       reported s @ [fst (record_trace sn st d opts t s)]
   \<and> (state t = RUNNING \<longrightarrow>
        fst (stop api t s) = None
        \<and> state (fst (record_trace sn st d opts (fst (snd (stop api t s)))
                    (snd (snd (stop api t s))))) = TERMINATED
        \<and> reported (snd (record_trace sn st d opts (fst (snd (stop api t s)))
                    (snd (snd (stop api t s))))) =
            reported s @ [fst (snd (stop api t s)),
                          fst (record_trace sn st d opts (fst (snd (stop api t s)))
                                 (snd (snd (stop api t s))))])"
proof (intro conjI impI)
  assume r: "state t = RUNNING"
  show "fst (stop api t s) = None" using r by (simp add: fst_stop)
  show "state (fst (record_trace sn st d opts (fst (snd (stop api t s)))
                    (snd (snd (stop api t s))))) = TERMINATED"
    using r by (simp add: state_stop)
  have "reported (snd (snd (stop api t s))) = reported s @ [fst (snd (stop api t s))]"
    using r by (simp add: stop_def Let_def logTrace_def)
  then show "reported (snd (record_trace sn st d opts (fst (snd (stop api t s)))
                    (snd (snd (stop api t s))))) =
            reported s @ [fst (snd (stop api t s)),
                          fst (record_trace sn st d opts (fst (snd (stop api t s)))
                                 (snd (snd (stop api t s))))]"
    by (simp add: record_trace_fields)
qed (simp_all add: record_trace_fields)

text \<open>On the concrete host: the stopped trace, reported with a duration of 1000, is
  recorded with a duration of 7 ms and reported again with 7000; recording the fresh trace
  leaves it \<open>UNINITIALIZED\<close>.\<close>

theorem record_ignores_state_witness:
  "state (fst started_t) = RUNNING
   \<and> state (fst (record_trace host_sn (Fin 5) (Fin 7) None (fst stopped_t) (snd stopped_t)))
       = TERMINATED
   \<and> map durationUs (reported (snd (record_trace host_sn (Fin 5) (Fin 7) None
        (fst stopped_t) (snd stopped_t)))) = [Some (Fin 1000), Some (Fin 7000)]
   \<and> state (fst (record_trace host_sn (Fin 5) (Fin 7) None (fst new_t) (snd new_t)))
       = UNINITIALIZED"
proof -
  have st: "snd (stop host_api (fst started_t) (snd started_t)) = stopped_t"
    by (simp add: stopped_t_def exec_Stop_pair)
  have r: "state (fst started_t) = RUNNING" by (simp add: started_t_eq)
  show ?thesis
    using record_ignores_state [where sn = host_sn and api = host_api and st = "Fin 5"
        and d = "Fin 7" and opts = None and t = "fst started_t" and s = "snd started_t"]
      record_ignores_state [where sn = host_sn and api = host_api and st = "Fin 5"
        and d = "Fin 7" and opts = None and t = "fst new_t" and s = "snd new_t"]
    by (simp add: st r stopped_t_sys stopped_t_trace new_t_fields record_trace_fields)
qed

text \<open>
  C10. \<open>record(startTime, duration)\<close> with no \<open>options\<close>, or with \<open>options\<close> that have
  neither \<open>attributes\<close> nor \<open>metrics\<close>, assigns \<open>durationUs\<close> and \<open>startTimeUs\<close> and
  nothing else of the trace: the counters, the reference to the attribute object and the
  store of attribute objects are as before; the trace is appended to the reported ones.
\<close>

theorem record_without_options:
  "record_trace sn st d None t s =
     (t\<lparr>durationUs := Some (js_floor (js_mul d (Fin 1000))),
        startTimeUs := Some (js_floor (js_mul st (Fin 1000)))\<rparr>,
      s\<lparr>reported := reported s @
          [t\<lparr>durationUs := Some (js_floor (js_mul d (Fin 1000))),
             startTimeUs := Some (js_floor (js_mul st (Fin 1000)))\<rparr>]\<rparr>)
   \<and> record_trace sn st d (Some \<lparr>metrics = None, attributes = None\<rparr>) t s =
       record_trace sn st d None t s
   \<and> counters (fst (record_trace sn st d None t s)) = counters t
   \<and> customAttributes (fst (record_trace sn st d None t s)) = customAttributes t
   \<and> objects (snd (record_trace sn st d None t s)) = objects s
   \<and> fresh (snd (record_trace sn st d None t s)) = fresh s"
  by (simp add: record_trace_def logTrace_def Let_def)

text \<open>On the fresh trace with a counter \<open>x = 3\<close> and an attribute \<open>a = ''1''\<close>:
  \<open>record(1, 2)\<close> keeps both and sets the duration to 2000.\<close>

theorem record_without_options_witness:
  "counters (fst (record_trace host_sn (Fin 1) (Fin 2) None
      (putMetric ''x'' (Fin 3) (fst new_t)) (putAttribute ''a'' ''1'' (fst new_t) (snd new_t))))
      ''x'' = Some (Fin 3)
   \<and> getAttribute ''a'' (fst (record_trace host_sn (Fin 1) (Fin 2) None
      (putMetric ''x'' (Fin 3) (fst new_t)) (putAttribute ''a'' ''1'' (fst new_t) (snd new_t))))
      (snd (record_trace host_sn (Fin 1) (Fin 2) None
      (putMetric ''x'' (Fin 3) (fst new_t)) (putAttribute ''a'' ''1'' (fst new_t) (snd new_t))))
      = Some ''1''
   \<and> durationUs (fst (record_trace host_sn (Fin 1) (Fin 2) None
      (putMetric ''x'' (Fin 3) (fst new_t)) (putAttribute ''a'' ''1'' (fst new_t) (snd new_t))))
      = Some (Fin 2000)"
  using record_without_options [where sn = host_sn and st = "Fin 1" and d = "Fin 2"
      and t = "putMetric ''x'' (Fin 3) (fst new_t)"
      and s = "putAttribute ''a'' ''1'' (fst new_t) (snd new_t)"]
  by (simp add: putMetric_def putAttribute_def getAttribute_def)

section \<open>The page-load factory\<close>

lemma counters_incrementMetric_other:
  "c' \<noteq> c \<Longrightarrow> counters (incrementMetric c n t) c' = counters t c'"
  by (simp add: incrementMetric_def Let_def split: option.splits)

lemma counters_incrementMetric_absent:
  "counters t c = None \<Longrightarrow>
   counters (incrementMetric c (Some v) t) c = Some (js_add (Fin 0) v)"
  by (simp add: incrementMetric_def Let_def)

lemma counters_setStartTime [simp]: "counters (setStartTime x t) = counters t"
  by (simp add: setStartTime_def)

lemma counters_setDuration [simp]: "counters (setDuration x t) = counters t"
  by (simp add: setDuration_def)

lemma Trace_new_auto:
  "Trace_new k api nm True mn rid s =
     (\<lparr>name = nm, isAuto = True, state = UNINITIALIZED, startTimeUs = None,
       durationUs = None, customAttributes = fresh s, counters = Map.empty,
       randomId = rid, traceStartMark = None, traceStopMark = None, traceMeasure = None\<rparr>,
      s\<lparr>objects := (objects s)(fresh s := Map.empty), fresh := Suc (fresh s)\<rparr>)"
  by (simp add: Trace_new_def alloc_def)

lemma createOobTrace_reported:
  "api_getUrl api (world s) = Some route \<Longrightarrow> route \<noteq> [] \<Longrightarrow>
   \<exists>tr. reported (createOobTrace k api navs pts fid rid s) = reported s @ [tr]"
  by (simp add: createOobTrace_def Trace_new_auto logTrace_def Let_def)

lemma createOobTrace_fid:
  assumes url: "api_getUrl api (world s) = Some route" "route \<noteq> []"
    and fid: "truthy fid"
    and d1: "FIRST_INPUT_DELAY_COUNTER_NAME k \<noteq> ''domInteractive''"
    and d2: "FIRST_INPUT_DELAY_COUNTER_NAME k \<noteq> ''domContentLoadedEventEnd''"
    and d3: "FIRST_INPUT_DELAY_COUNTER_NAME k \<noteq> ''loadEventEnd''"
    and d4: "FIRST_INPUT_DELAY_COUNTER_NAME k \<noteq> FIRST_PAINT_COUNTER_NAME k"
    and d5: "FIRST_INPUT_DELAY_COUNTER_NAME k \<noteq> FIRST_CONTENTFUL_PAINT_COUNTER_NAME k"
  shows "counters (last (reported (createOobTrace k api navs (Some pts) (Some fid) rid s)))
           (FIRST_INPUT_DELAY_COUNTER_NAME k) = Some (js_floor (js_mul fid (Fin 1000)))"
  using assms
  by (simp add: createOobTrace_def logTrace_def Let_def Trace_new_auto
      counters_incrementMetric_other counters_incrementMetric_absent js_add_zero_floor
      split: option.splits list.splits)

text \<open>
  C8, as the code has it. When a route is available, the array of paint timings is given
  and the first input delay given is neither \<open>0\<close> nor \<open>NaN\<close>, the page-load factory reports
  one trace, whose counter under \<open>FIRST_INPUT_DELAY_COUNTER_NAME\<close> is the floor of the delay
  times \<open>1000\<close> (the product of binary64). The constants are parameters here, so the
  statement asks that this name differs from the names of the other five counters the
  factory writes and is not the name of a property inherited from \<open>Object.prototype\<close>.
\<close>

theorem first_input_delay_counter:
  "api_getUrl api (world s) = Some route \<and> route \<noteq> [] \<and> truthy fid
   \<and> FIRST_INPUT_DELAY_COUNTER_NAME k \<noteq> ''domInteractive''
   \<and> FIRST_INPUT_DELAY_COUNTER_NAME k \<noteq> ''domContentLoadedEventEnd''
   \<and> FIRST_INPUT_DELAY_COUNTER_NAME k \<noteq> ''loadEventEnd''
   \<and> FIRST_INPUT_DELAY_COUNTER_NAME k \<noteq> FIRST_PAINT_COUNTER_NAME k
   \<and> FIRST_INPUT_DELAY_COUNTER_NAME k \<noteq> FIRST_CONTENTFUL_PAINT_COUNTER_NAME k
   \<and> FIRST_INPUT_DELAY_COUNTER_NAME k \<notin> set Object_prototype_keys
   \<longrightarrow>
     (\<exists>tr. reported (createOobTrace k api navs (Some pts) (Some fid) rid s) = reported s @ [tr])
     \<and> counters (last (reported (createOobTrace k api navs (Some pts) (Some fid) rid s)))
          (FIRST_INPUT_DELAY_COUNTER_NAME k) = Some (js_floor (js_mul fid (Fin 1000)))"
  using createOobTrace_fid [of api s route fid k navs pts rid]
    createOobTrace_reported [of api s route k navs "Some pts" "Some fid" rid]
  by simp

lemma host_oob:
  "api_getUrl host_api w = Some ''/home''"
  by (simp add: host_api_def)

text \<open>On the concrete host, with one navigation timing, a first paint and an input delay of
  2.5 ms: one trace is reported, with the counter \<open>_fid\<close> at 2500.\<close>

theorem first_input_delay_counter_witness:
  "api_getUrl host_api (world host_sys) = Some ''/home'' \<and> ''/home'' \<noteq> [] \<and> truthy (Fin 2.5)
   \<and> FIRST_INPUT_DELAY_COUNTER_NAME host_constants = ''_fid''
   \<and> FIRST_PAINT_COUNTER_NAME host_constants = ''_fp''
   \<and> FIRST_CONTENTFUL_PAINT_COUNTER_NAME host_constants = ''_fcp''
   \<and> ''_fid'' \<notin> set Object_prototype_keys
   \<and> length (reported (createOobTrace host_constants host_api
        (Some [\<lparr>entry_name = ''nav'', startTime = Fin 0, duration = Fin 12.5,
                domInteractive = Fin 0.5, domContentLoadedEventEnd = Fin 3,
                loadEventEnd = Fin 9\<rparr>])
        (Some [\<lparr>entry_name = ''first-paint'', startTime = Fin 1.25, duration = Fin 0\<rparr>])
        (Some (Fin 2.5)) 7 host_sys)) = 1
   \<and> counters (last (reported (createOobTrace host_constants host_api
        (Some [\<lparr>entry_name = ''nav'', startTime = Fin 0, duration = Fin 12.5,
                domInteractive = Fin 0.5, domContentLoadedEventEnd = Fin 3,
                loadEventEnd = Fin 9\<rparr>])
        (Some [\<lparr>entry_name = ''first-paint'', startTime = Fin 1.25, duration = Fin 0\<rparr>])
        (Some (Fin 2.5)) 7 host_sys))) ''_fid'' = Some (Fin 2500)"
  using first_input_delay_counter [where api = host_api and s = host_sys and route = "''/home''"
      and fid = "Fin 2.5" and k = host_constants and rid = 7
      and navs = "Some [\<lparr>entry_name = ''nav'', startTime = Fin 0, duration = Fin 12.5,
                domInteractive = Fin 0.5, domContentLoadedEventEnd = Fin 3,
                loadEventEnd = Fin 9\<rparr>]"
      and pts = "[\<lparr>entry_name = ''first-paint'', startTime = Fin 1.25, duration = Fin 0\<rparr>]"]
    host_oob
  by (auto simp: host_constants_def host_sys_def Object_prototype_keys_def)

text \<open>
  C8 as the spec states it fails: with a route available and an input delay of \<open>0\<close>
  supplied along with an (empty) array of paint timings, the reported trace has no counter
  under the first-input-delay name; and with an input delay of 5 ms but no array of paint
  timings it has none either, the block that records the delay being inside
  \<open>if (paintTimings)\<close>.
\<close>

theorem first_input_delay_not_recorded:
  "length (reported (createOobTrace host_constants host_api (Some []) (Some [])
      (Some (Fin 0)) 7 host_sys)) = 1
   \<and> counters (last (reported (createOobTrace host_constants host_api (Some []) (Some [])
      (Some (Fin 0)) 7 host_sys))) (FIRST_INPUT_DELAY_COUNTER_NAME host_constants) = None
   \<and> length (reported (createOobTrace host_constants host_api (Some []) None
      (Some (Fin 5)) 7 host_sys)) = 1
   \<and> counters (last (reported (createOobTrace host_constants host_api (Some []) None
      (Some (Fin 5)) 7 host_sys))) (FIRST_INPUT_DELAY_COUNTER_NAME host_constants) = None"
  by (simp add: createOobTrace_def Trace_new_auto logTrace_def Let_def host_oob
      host_sys_def setStartTime_def)

section \<open>Attributes and the copy returned by \<open>getAttributes\<close>\<close>

text \<open>
  The attribute object of a trace is allocated: its reference is below \<open>fresh\<close>. The
  constructor establishes this, and every call on the trace and every write of a caller
  to an object keeps it.
\<close>

lemma Trace_new_allocated:
  "customAttributes (fst (Trace_new k api nm auto mn rid s)) < fresh (snd (Trace_new k api nm auto mn rid s))"
  by (simp add: Trace_new_def alloc_def Let_def calculateTraceMetrics_def
      split: option.splits list.splits)

lemma customAttributes_calculateTraceMetrics [simp]:
  "customAttributes (calculateTraceMetrics api t w) = customAttributes t"
  by (simp add: calculateTraceMetrics_def split: option.splits list.splits)

lemma exec_keeps_allocated:
  "customAttributes t < fresh s \<Longrightarrow>
   customAttributes (fst (snd (exec sn api c (t, s)))) < fresh (snd (snd (exec sn api c (t, s))))"
  by (cases c)
     (auto simp: start_def stop_def Let_def logTrace_def record_trace_def alloc_def
        incrementMetric_def putMetric_def putAttribute_def removeAttribute_def getAttributes_def
        split: option.splits prod.splits)

lemma overwrite_keeps_allocated:
  "customAttributes t < fresh s \<Longrightarrow> customAttributes t < fresh (overwrite r m s)"
  by (simp add: overwrite_def)

lemma run_keeps_allocated:
  "customAttributes (fst ts) < fresh (snd ts) \<Longrightarrow>
   customAttributes (fst (run sn api cs ts)) < fresh (snd (run sn api cs ts))"
proof (induction cs arbitrary: ts)
  case Nil
  then show ?case by simp
next
  case (Cons c cs)
  obtain t s where ts: "ts = (t, s)" by (cases ts)
  have "customAttributes (fst (snd (exec sn api c ts))) < fresh (snd (snd (exec sn api c ts)))"
    using Cons.prems exec_keeps_allocated [of t s sn api c] by (simp add: ts)
  then show ?case using Cons.IH by simp
qed



end
